theory Spec2Isabelle
  imports Main
begin

section \<open>Values decoded from a JSON feed response\<close>

text \<open>
  The parsers of \<^verbatim>\<open>bluesky_notif/parser.py\<close> never build values of their own
  types out of the feed: they probe what \<^verbatim>\<open>json.loads\<close> returned. A decoded
  document is \<^verbatim>\<open>None\<close>, a bool, an int, a float, a str, a list or a dict with
  string keys. Python's \<^verbatim>\<open>None\<close> is \<open>JNull\<close> throughout, so the value of an
  unset attribute and the value of a JSON \<^verbatim>\<open>null\<close> coincide, as they do in the
  source. A float is kept as sign, magnitude and binary exponent, or as one of the
  three special values \<^verbatim>\<open>json.loads\<close> also accepts; only its truth value is ever
  inspected. A dict is an association list read with \<open>map_of\<close>.
\<close>

datatype pyfloat = Finite bool nat int | Infinity bool | NaN

datatype json =
    JNull
  | JBool bool
  | JInt int
  | JFloat pyfloat
  | JStr string
  | JList "json list"
  | JObj "(string \<times> json) list"

text \<open>The exceptions that the decoding code can raise.\<close>

datatype error = AttributeError | TypeError | ValueError string

text \<open>Truth value testing, as \<^verbatim>\<open>not x\<close> and \<^verbatim>\<open>if x\<close> use it.\<close>

fun float_truthy :: "pyfloat \<Rightarrow> bool" where
  "float_truthy (Finite s m e) = (m \<noteq> 0)"
| "float_truthy (Infinity s) = True"
| "float_truthy NaN = True"

fun truthy :: "json \<Rightarrow> bool" where
  "truthy JNull = False"
| "truthy (JBool b) = b"
| "truthy (JInt i) = (i \<noteq> 0)"
| "truthy (JFloat f) = float_truthy f"
| "truthy (JStr s) = (s \<noteq> [])"
| "truthy (JList xs) = (xs \<noteq> [])"
| "truthy (JObj kvs) = (kvs \<noteq> [])"

text \<open>
  \<^verbatim>\<open>x.get(key)\<close>: on a dict the value stored under the key, \<^verbatim>\<open>None\<close> when
  the key is missing; every other decoded value has no attribute \<^verbatim>\<open>get\<close>.
\<close>

fun dict_get :: "json \<Rightarrow> string \<Rightarrow> error + json" where
  "dict_get (JObj kvs) k = Inr (case map_of kvs k of None \<Rightarrow> JNull | Some v \<Rightarrow> v)"
| "dict_get JNull k = Inl AttributeError"
| "dict_get (JBool b) k = Inl AttributeError"
| "dict_get (JInt i) k = Inl AttributeError"
| "dict_get (JFloat f) k = Inl AttributeError"
| "dict_get (JStr s) k = Inl AttributeError"
| "dict_get (JList xs) k = Inl AttributeError"

text \<open>
  \<^verbatim>\<open>datetime.fromisoformat\<close> belongs to the standard library, not to this
  repository. The accessors that call it take the string parser as the parameter
  \<open>fromiso\<close>; the call itself rejects an argument that is not a str.
\<close>

fun call_fromisoformat :: "(string \<Rightarrow> error + 'd) \<Rightarrow> json \<Rightarrow> error + 'd" where
  "call_fromisoformat fromiso (JStr s) = fromiso s"
| "call_fromisoformat fromiso JNull = Inl TypeError"
| "call_fromisoformat fromiso (JBool b) = Inl TypeError"
| "call_fromisoformat fromiso (JInt i) = Inl TypeError"
| "call_fromisoformat fromiso (JFloat f) = Inl TypeError"
| "call_fromisoformat fromiso (JList xs) = Inl TypeError"
| "call_fromisoformat fromiso (JObj kvs) = Inl TypeError"

section \<open>Enumerations\<close>

datatype ReasonType = REPOST | PIN | NONE

fun ReasonType_value :: "ReasonType \<Rightarrow> string" where
  "ReasonType_value REPOST = ''app.bsky.feed.defs#reasonRepost''"
| "ReasonType_value PIN = ''app.bsky.feed.defs#reasonPin''"
| "ReasonType_value NONE = ''''"

section \<open>PostRecord\<close>

record PostRecord =
  pr_record :: json

definition PostRecord_record_type :: "PostRecord \<Rightarrow> error + json" where
  "PostRecord_record_type self = dict_get (pr_record self) ''$type''"

definition PostRecord_text :: "PostRecord \<Rightarrow> error + json" where
  "PostRecord_text self = dict_get (pr_record self) ''text''"

definition PostRecord_created_at :: "PostRecord \<Rightarrow> error + json" where
  "PostRecord_created_at self = dict_get (pr_record self) ''createdAt''"

definition PostRecord_embed :: "PostRecord \<Rightarrow> error + json" where
  "PostRecord_embed self = dict_get (pr_record self) ''embed''"

definition PostRecord_facets :: "PostRecord \<Rightarrow> error + json" where
  "PostRecord_facets self = dict_get (pr_record self) ''facets''"

definition PostRecord_langs :: "PostRecord \<Rightarrow> error + json" where
  "PostRecord_langs self = dict_get (pr_record self) ''langs''"

section \<open>PostParser\<close>

record PostParser =
  pp_post :: json

definition default_count :: "json \<Rightarrow> json" where
  "default_count count = (if count = JNull then JInt 0 else count)"

definition PostParser_uri :: "PostParser \<Rightarrow> error + json" where
  "PostParser_uri self = dict_get (pp_post self) ''uri''"

definition PostParser_cid :: "PostParser \<Rightarrow> error + json" where
  "PostParser_cid self = dict_get (pp_post self) ''cid''"

definition PostParser_author :: "PostParser \<Rightarrow> error + json" where
  "PostParser_author self = dict_get (pp_post self) ''author''"

definition PostParser_record :: "PostParser \<Rightarrow> error + PostRecord" where
  "PostParser_record self =
     (case dict_get (pp_post self) ''record'' of
        Inl e \<Rightarrow> Inl e
      | Inr r \<Rightarrow> Inr \<lparr>pr_record = r\<rparr>)"

definition PostParser_embed :: "PostParser \<Rightarrow> error + json" where
  "PostParser_embed self =
     (case dict_get (pp_post self) ''embed'' of
        Inl e \<Rightarrow> Inl e
      | Inr emb \<Rightarrow>
          Inr (if emb = JNull then JObj [(''error'', JStr ''no_embed'')] else emb))"

definition PostParser_reply_count :: "PostParser \<Rightarrow> error + json" where
  "PostParser_reply_count self =
     (case dict_get (pp_post self) ''replyCount'' of
        Inl e \<Rightarrow> Inl e
      | Inr count \<Rightarrow> Inr (default_count count))"

definition PostParser_repost_count :: "PostParser \<Rightarrow> error + json" where
  "PostParser_repost_count self =
     (case dict_get (pp_post self) ''repostCount'' of
        Inl e \<Rightarrow> Inl e
      | Inr count \<Rightarrow> Inr (default_count count))"

definition PostParser_like_count :: "PostParser \<Rightarrow> error + json" where
  "PostParser_like_count self =
     (case dict_get (pp_post self) ''likeCount'' of
        Inl e \<Rightarrow> Inl e
      | Inr count \<Rightarrow> Inr (default_count count))"

definition PostParser_quote_count :: "PostParser \<Rightarrow> error + json" where
  "PostParser_quote_count self =
     (case dict_get (pp_post self) ''quoteCount'' of
        Inl e \<Rightarrow> Inl e
      | Inr count \<Rightarrow> Inr (default_count count))"

definition PostParser_indexed_at ::
    "(string \<Rightarrow> error + 'd) \<Rightarrow> PostParser \<Rightarrow> error + 'd" where
  "PostParser_indexed_at fromiso self =
     (case dict_get (pp_post self) ''indexedAt'' of
        Inl e \<Rightarrow> Inl e
      | Inr i \<Rightarrow> call_fromisoformat fromiso i)"

section \<open>ReplyParser\<close>

record ReplyParser =
  reply_r :: json

definition ReplyParser_reply :: "ReplyParser \<Rightarrow> json" where
  "ReplyParser_reply self = reply_r self"

definition ReplyParser_root :: "ReplyParser \<Rightarrow> error + json" where
  "ReplyParser_root self = dict_get (ReplyParser_reply self) ''root''"

definition ReplyParser_parent :: "ReplyParser \<Rightarrow> error + json" where
  "ReplyParser_parent self = dict_get (ReplyParser_reply self) ''parent''"

definition ReplyParser_grandparent_author :: "ReplyParser \<Rightarrow> error + json" where
  "ReplyParser_grandparent_author self =
     (case dict_get (ReplyParser_reply self) ''grandparentAuthor'' of
        Inl e \<Rightarrow> Inl e
      | Inr grandparent_author \<Rightarrow>
          Inr (if grandparent_author = JNull
               then JObj [(''error'', JStr ''no_feed_reply_grandparentAuthor'')]
               else grandparent_author))"

section \<open>ReasonParser\<close>

record ReasonParser =
  reason_r :: json

text \<open>
  \<open>reason_type\<close> returns a member of the enumeration or, when its \<^verbatim>\<open>match\<close>
  statement selects no case, falls off the end of the function body: the caller then
  receives Python's \<^verbatim>\<open>None\<close>, here the result \<open>None\<close> of the option type.
  \<open>indexed_at\<close> returns either the str literal \<^verbatim>\<open>""\<close> or a parsed timestamp.
\<close>

datatype 'd str_or_datetime = PyStr string | PyDatetime 'd

definition ReasonParser_reason :: "ReasonParser \<Rightarrow> json" where
  "ReasonParser_reason self =
     (if reason_r self = JNull
      then JObj [(''$type'', JStr ''''), (''by'', JStr ''''), (''indexedAt'', JStr '''')]
      else reason_r self)"

definition ReasonParser_reason_type :: "ReasonParser \<Rightarrow> error + ReasonType option" where
  "ReasonParser_reason_type self =
     (case dict_get (ReasonParser_reason self) ''$type'' of
        Inl e \<Rightarrow> Inl e
      | Inr t \<Rightarrow>
          if \<not> truthy t then Inr (Some NONE)
          else if t = JStr (ReasonType_value REPOST) then Inr (Some REPOST)
          else if t = JStr (ReasonType_value PIN) then Inr (Some PIN)
          else Inr None)"

definition ReasonParser_by :: "ReasonParser \<Rightarrow> error + json" where
  "ReasonParser_by self =
     (case dict_get (ReasonParser_reason self) ''by'' of
        Inl e \<Rightarrow> Inl e
      | Inr b \<Rightarrow> Inr (if \<not> truthy b then JStr '''' else b))"

definition ReasonParser_indexed_at ::
    "(string \<Rightarrow> error + 'd) \<Rightarrow> ReasonParser \<Rightarrow> error + 'd str_or_datetime" where
  "ReasonParser_indexed_at fromiso self =
     (case dict_get (ReasonParser_reason self) ''indexedAt'' of
        Inl e \<Rightarrow> Inl e
      | Inr i \<Rightarrow>
          if \<not> truthy i then Inr (PyStr '''')
          else (case call_fromisoformat fromiso i of
                  Inl e \<Rightarrow> Inl e
                | Inr d \<Rightarrow> Inr (PyDatetime d)))"

section \<open>FeedParser\<close>

text \<open>
  The parser object is mutable: the setter of its property \<open>feed\<close> performs four
  assignments in sequence. The model passes the object in and returns it updated,
  together with the exception that interrupted the assignments, if any.
\<close>

record FeedParser =
  feed_post :: json
  feed_reply :: json
  feed_reason :: json
  feed_cur :: json

definition FeedParser_init :: FeedParser where
  "FeedParser_init =
     \<lparr>feed_post = JNull, feed_reply = JNull, feed_reason = JNull, feed_cur = JNull\<rparr>"

definition FeedParser_feed :: "FeedParser \<Rightarrow> json" where
  "FeedParser_feed self = feed_cur self"

definition FeedParser_feed_setter :: "FeedParser \<Rightarrow> json \<Rightarrow> FeedParser \<times> error option" where
  "FeedParser_feed_setter self feed =
     (let s1 = self\<lparr>feed_cur := feed\<rparr> in
      case dict_get feed ''post'' of
        Inl e \<Rightarrow> (s1, Some e)
      | Inr p \<Rightarrow>
          (let s2 = s1\<lparr>feed_post := p\<rparr> in
           case dict_get feed ''reply'' of
             Inl e \<Rightarrow> (s2, Some e)
           | Inr r \<Rightarrow>
               (let s3 = s2\<lparr>feed_reply := r\<rparr> in
                case dict_get feed ''reason'' of
                  Inl e \<Rightarrow> (s3, Some e)
                | Inr rs \<Rightarrow> (s3\<lparr>feed_reason := rs\<rparr>, None))))"

definition FeedParser_post :: "FeedParser \<Rightarrow> error + PostParser" where
  "FeedParser_post self =
     (if feed_post self = JNull then Inl (ValueError ''feed is not set.'')
      else Inr \<lparr>pp_post = feed_post self\<rparr>)"

definition FeedParser_reply :: "FeedParser \<Rightarrow> ReplyParser" where
  "FeedParser_reply self =
     (if feed_reply self = JNull then \<lparr>reply_r = JObj [(''error'', JStr ''no_feed_reply'')]\<rparr>
      else \<lparr>reply_r = feed_reply self\<rparr>)"

definition FeedParser_reason :: "FeedParser \<Rightarrow> ReasonParser" where
  "FeedParser_reason self = \<lparr>reason_r = feed_reason self\<rparr>"

section \<open>The standard library's timestamp parser and printer\<close>

text \<open>
  \<^verbatim>\<open>datetime.fromisoformat\<close> and \<^verbatim>\<open>datetime.isoformat\<close> are not code of this
  repository. The parser of this section follows the implementation that the
  interpreter runs, \<^verbatim>\<open>Modules/_datetimemodule.c\<close> of CPython 3.11 (the first version
  to accept the timestamps of the feed, which end in \<^verbatim>\<open>Z\<close>), function by function
  and under its names where it has them: calendar dates and ISO week dates, with or without dashes, an
  optional time \<^verbatim>\<open>HH[:MM[:SS[.f+]]]\<close> behind one separator character, and an
  optional \<^verbatim>\<open>Z\<close> or numeric offset. The printer follows \<^verbatim>\<open>Lib/datetime.py\<close>.
  A string is the sequence of its characters, taken to be ASCII as the timestamps of
  the feed are. Every rejection of the library is a \<^verbatim>\<open>ValueError\<close>; the texts of
  its messages are abridged. The accessors of the repository do not depend on this
  section: they take the parser as a parameter, and the properties of concrete
  timestamps below instantiate it.

  A timestamp is the tuple of its fields; \<open>dt_utcoffset\<close> is \<open>None\<close> for a naive
  timestamp and the offset from UTC in microseconds for an aware one.
\<close>

record datetime =
  dt_year :: nat
  dt_month :: nat
  dt_day :: nat
  dt_hour :: nat
  dt_minute :: nat
  dt_second :: nat
  dt_microsecond :: nat
  dt_utcoffset :: "int option"

text \<open>
  The C code reads a NUL-terminated buffer: the character at an index past the end
  of the string is the terminator.
\<close>

definition byte_at :: "string \<Rightarrow> nat \<Rightarrow> char" where
  "byte_at s i = (if i < length s then s ! i else CHR 0x00)"

definition is_ascii_digit :: "char \<Rightarrow> bool" where
  "is_ascii_digit c = (c \<in> set ''0123456789'')"

definition digit_value :: "char \<Rightarrow> nat" where
  "digit_value c = length (takeWhile (\<lambda>x. x \<noteq> c) ''0123456789'')"

text \<open>
  \<^verbatim>\<open>parse_digits(ptr, var, num_digits)\<close>: exactly \<open>n\<close> decimal digits from position
  \<open>p\<close> on, or failure at the first other character; the result is the position
  behind the digits and their value.
\<close>

definition parse_digits :: "string \<Rightarrow> nat \<Rightarrow> nat \<Rightarrow> (nat \<times> nat) option" where
  "parse_digits s p n =
     (let d = take n (drop p s)
      in if length d = n \<and> list_all is_ascii_digit d
         then Some (p + n, foldl (\<lambda>v c. 10 * v + digit_value c) 0 d)
         else None)"

text \<open>
  \<^verbatim>\<open>_find_isoformat_datetime_separator\<close>: where the date part ends, decided from
  the length and from the characters at the positions 4, 5, 8 and 10.
\<close>

definition find_isoformat_datetime_separator :: "string \<Rightarrow> nat option" where
  "find_isoformat_datetime_separator dtstr =
     (let len = length dtstr in
      if len = 7 then Some 7
      else if byte_at dtstr 4 = CHR ''-'' then
        (if byte_at dtstr 5 = CHR ''W'' then
           (if len < 8 then None
            else if 8 < len \<and> byte_at dtstr 8 = CHR ''-'' then
              (if len = 9 then None
               else if 10 < len \<and> is_ascii_digit (byte_at dtstr 10) then Some 8
               else Some 10)
            else Some 8)
         else Some 10)
      else if byte_at dtstr 4 = CHR ''W'' then
        (let idx = 7 + length (takeWhile is_ascii_digit (drop 7 dtstr))
         in if idx < 9 then Some idx
            else if idx mod 2 = 0 then Some 7
            else Some 8)
      else Some 8)"

subsection \<open>Calendar arithmetic\<close>

definition is_leap :: "nat \<Rightarrow> bool" where
  "is_leap year = (year mod 4 = 0 \<and> (year mod 100 \<noteq> 0 \<or> year mod 400 = 0))"

definition days_in_month_table :: "nat list" where
  "days_in_month_table = [31, 28, 31, 30, 31, 30, 31, 31, 30, 31, 30, 31]"

definition days_before_month_table :: "nat list" where
  "days_before_month_table = [0, 31, 59, 90, 120, 151, 181, 212, 243, 273, 304, 334]"

definition days_in_month :: "nat \<Rightarrow> nat \<Rightarrow> nat" where
  "days_in_month year month =
     (if month = 2 \<and> is_leap year then 29 else days_in_month_table ! (month - 1))"

definition days_before_month :: "nat \<Rightarrow> nat \<Rightarrow> nat" where
  "days_before_month year month =
     days_before_month_table ! (month - 1) + (if 2 < month \<and> is_leap year then 1 else 0)"

definition days_before_year :: "nat \<Rightarrow> nat" where
  "days_before_year year =
     (let y = year - 1 in y * 365 + y div 4 - y div 100 + y div 400)"

definition ymd_to_ord :: "nat \<Rightarrow> nat \<Rightarrow> nat \<Rightarrow> nat" where
  "ymd_to_ord year month day = days_before_year year + days_before_month year month + day"

definition weekday :: "nat \<Rightarrow> nat \<Rightarrow> nat \<Rightarrow> nat" where
  "weekday year month day = (ymd_to_ord year month day + 6) mod 7"

definition iso_week1_monday :: "nat \<Rightarrow> nat" where
  "iso_week1_monday year =
     (let first_day = ymd_to_ord year 1 1;
          first_weekday = (first_day + 6) mod 7;
          week1_monday = first_day - first_weekday
      in if 3 < first_weekday then week1_monday + 7 else week1_monday)"

definition ord_to_ymd :: "nat \<Rightarrow> nat \<times> nat \<times> nat" where
  "ord_to_ymd ordinal =
     (let o1 = ordinal - 1;
          n400 = o1 div 146097; r400 = o1 mod 146097;
          n100 = r400 div 36524; r100 = r400 mod 36524;
          n4 = r100 div 1461; r4 = r100 mod 1461;
          n1 = r4 div 365; n = r4 mod 365;
          year = n400 * 400 + 1 + n100 * 100 + n4 * 4 + n1
      in if n1 = 4 \<or> n100 = 4 then (year - 1, 12, 31)
         else
           (let leap = (n1 = 3 \<and> (n4 \<noteq> 24 \<or> n100 = 3));
                month = (n + 50) div 32;
                preceding = days_before_month_table ! (month - 1)
                            + (if 2 < month \<and> leap then 1 else 0)
            in if n < preceding
               then (let month' = month - 1;
                         preceding' = preceding
                           - (if month' = 2 \<and> leap then 29
                              else days_in_month_table ! (month' - 1))
                     in (year, month', n - preceding' + 1))
               else (year, month, n - preceding + 1)))"

text \<open>
  \<^verbatim>\<open>iso_to_ymd\<close>: the calendar date of an ISO week date. The year of a string is
  read from four digits; for the year 0 every week lies before the first day of the
  calendar and the library rejects the string; the first test says so.
\<close>

definition iso_to_ymd :: "nat \<Rightarrow> nat \<Rightarrow> nat \<Rightarrow> (nat \<times> nat \<times> nat) option" where
  "iso_to_ymd iso_year iso_week iso_day =
     (if iso_year < 1 then None
      else if (iso_week = 0 \<or> 53 \<le> iso_week)
              \<and> \<not> (iso_week = 53
                     \<and> (weekday iso_year 1 1 = 3
                          \<or> (weekday iso_year 1 1 = 2 \<and> is_leap iso_year)))
      then None
      else if iso_day = 0 \<or> 8 \<le> iso_day then None
      else Some (ord_to_ymd (iso_week1_monday iso_year + ((iso_week - 1) * 7 + iso_day - 1))))"

subsection \<open>The date part\<close>

definition parse_isoformat_date :: "string \<Rightarrow> nat \<Rightarrow> (nat \<times> nat \<times> nat) option" where
  "parse_isoformat_date dtstr len =
     (case parse_digits dtstr 0 4 of
        None \<Rightarrow> None
      | Some (p0, year) \<Rightarrow>
          (let uses_separator = (byte_at dtstr p0 = CHR ''-'');
               p1 = (if uses_separator then p0 + 1 else p0)
           in if byte_at dtstr p1 = CHR ''W'' then
                (case parse_digits dtstr (p1 + 1) 2 of
                   None \<Rightarrow> None
                 | Some (p2, iso_week) \<Rightarrow>
                     if p2 < len then
                       (if uses_separator \<and> byte_at dtstr p2 \<noteq> CHR ''-'' then None
                        else (case parse_digits dtstr (if uses_separator then p2 + 1 else p2) 1 of
                                None \<Rightarrow> None
                              | Some (p3, iso_day) \<Rightarrow> iso_to_ymd year iso_week iso_day))
                     else iso_to_ymd year iso_week 1)
              else
                (case parse_digits dtstr p1 2 of
                   None \<Rightarrow> None
                 | Some (p2, month) \<Rightarrow>
                     if uses_separator \<and> byte_at dtstr p2 \<noteq> CHR ''-'' then None
                     else (case parse_digits dtstr (if uses_separator then p2 + 1 else p2) 2 of
                             None \<Rightarrow> None
                           | Some (p3, day) \<Rightarrow> Some (year, month, day)))))"

subsection \<open>The time part\<close>

text \<open>
  The loop over hours, minutes and seconds of \<^verbatim>\<open>parse_hh_mm_ss_ff\<close>. The first
  numeric argument counts the iterations left and \<open>i\<close> is the loop index. The loop
  fails (\<open>None\<close>), returns from the function (\<open>Inl\<close>, with the flag "characters
  are left over") or goes on to the fraction at a position (\<open>Inr\<close>).
\<close>

fun hms_loop ::
    "string \<Rightarrow> nat \<Rightarrow> nat \<Rightarrow> nat \<Rightarrow> bool \<Rightarrow> nat \<Rightarrow> nat list
       \<Rightarrow> (bool \<times> nat list + nat \<times> nat list) option" where
  "hms_loop s p_end 0 i has_separator p vals = Some (Inr (p, vals))"
| "hms_loop s p_end (Suc n) i has_separator p vals =
     (case parse_digits s p 2 of
        None \<Rightarrow> None
      | Some (p1, v) \<Rightarrow>
          (let c = byte_at s p1;
               p2 = p1 + 1;
               hs = (if i = 0 then c = CHR '':'' else has_separator);
               vals' = vals @ [v]
           in if p_end \<le> p2 then Some (Inl (c \<noteq> CHR 0x00, vals'))
              else if hs \<and> c = CHR '':'' then hms_loop s p_end n (i + 1) hs p2 vals'
              else if c = CHR ''.'' \<or> c = CHR '','' then Some (Inr (p2, vals'))
              else if \<not> hs then hms_loop s p_end n (i + 1) hs p1 vals'
              else None))"

definition correction :: "nat list" where
  "correction = [100000, 10000, 1000, 100, 10]"

text \<open>
  \<^verbatim>\<open>parse_hh_mm_ss_ff(tstr, tstr_end, ...)\<close> on the part of the buffer from \<open>p\<close>
  to \<open>p_end\<close>: the flag of the result says that characters are left over behind
  what was read.
\<close>

definition parse_hh_mm_ss_ff ::
    "string \<Rightarrow> nat \<Rightarrow> nat \<Rightarrow> (bool \<times> nat \<times> nat \<times> nat \<times> nat) option" where
  "parse_hh_mm_ss_ff s p p_end =
     (case hms_loop s p_end (Suc (Suc (Suc 0))) 0 True p [] of
        None \<Rightarrow> None
      | Some (Inl (left_over, vals)) \<Rightarrow>
          (let comps = vals @ replicate (3 - length vals) 0
           in Some (left_over, comps ! 0, comps ! 1, comps ! 2, 0))
      | Some (Inr (q, vals)) \<Rightarrow>
          (let comps = vals @ replicate (3 - length vals) 0;
               len_remains = p_end - q;
               to_parse = min 6 len_remains
           in case parse_digits s q to_parse of
                None \<Rightarrow> None
              | Some (q1, us) \<Rightarrow>
                  (let microsecond =
                         (if to_parse < 6 then us * correction ! (to_parse - 1) else us);
                       q2 = q1 + length (takeWhile is_ascii_digit (drop q1 s))
                   in Some (byte_at s q2 \<noteq> CHR 0x00, comps ! 0, comps ! 1, comps ! 2,
                            microsecond))))"

text \<open>
  \<^verbatim>\<open>parse_isoformat_time\<close> on the buffer from \<open>start\<close> on. The offset of the
  result is \<open>None\<close> without a time zone and otherwise the pair of its whole seconds
  and its microseconds, both signed.
\<close>

definition tzinfo_pos :: "string \<Rightarrow> nat \<Rightarrow> nat" where
  "tzinfo_pos s start =
     (let k = start + length (takeWhile (\<lambda>c. c \<notin> set ''Z+-'') (drop start s))
      in if k < length s then k else max (length s) (start + 1))"

definition parse_isoformat_time ::
    "string \<Rightarrow> nat \<Rightarrow> ((nat \<times> nat \<times> nat \<times> nat) \<times> (int \<times> int) option) option" where
  "parse_isoformat_time s start =
     (let p_end = length s;
          tz = tzinfo_pos s start
      in case parse_hh_mm_ss_ff s start tz of
           None \<Rightarrow> None
         | Some (left_over, hour, minute, second, microsecond) \<Rightarrow>
             if tz = p_end then
               (if left_over then None else Some ((hour, minute, second, microsecond), None))
             else if byte_at s tz = CHR ''Z'' then
               (if byte_at s (tz + 1) \<noteq> CHR 0x00 then None
                else Some ((hour, minute, second, microsecond), Some (0, 0)))
             else
               (let tzsign = (if byte_at s tz = CHR ''-'' then - 1 else 1 :: int)
                in case parse_hh_mm_ss_ff s (tz + 1) p_end of
                     None \<Rightarrow> None
                   | Some (tz_left_over, tzhour, tzminute, tzsecond, tzmicrosecond) \<Rightarrow>
                       if tz_left_over then None
                       else Some ((hour, minute, second, microsecond),
                              Some (tzsign * (int tzhour * 3600 + int tzminute * 60 + int tzsecond),
                                    tzsign * int tzmicrosecond))))"

subsection \<open>Construction\<close>

text \<open>
  \<^verbatim>\<open>tzinfo_from_isoformat_results\<close>: an offset of zero whole seconds is UTC, whatever
  its microseconds; any other offset has to lie strictly between minus and plus 24
  hours. The result is the offset in microseconds.
\<close>

definition tzinfo_from_isoformat_results :: "(int \<times> int) option \<Rightarrow> int option option" where
  "tzinfo_from_isoformat_results r =
     (case r of
        None \<Rightarrow> Some None
      | Some (tzoffset, tz_useconds) \<Rightarrow>
          if tzoffset = 0 then Some (Some 0)
          else (let td = tzoffset * 1000000 + tz_useconds
                in if - 86400000000 < td \<and> td < 86400000000 then Some (Some td) else None))"

text \<open>The constructor \<^verbatim>\<open>datetime(...)\<close> with its range checks on every field.\<close>

definition datetime_new ::
    "nat \<Rightarrow> nat \<Rightarrow> nat \<Rightarrow> nat \<Rightarrow> nat \<Rightarrow> nat \<Rightarrow> nat \<Rightarrow> int option \<Rightarrow> datetime option" where
  "datetime_new year month day hour minute second microsecond tzinfo =
     (if \<not> (1 \<le> year \<and> year \<le> 9999) then None
      else if \<not> (1 \<le> month \<and> month \<le> 12) then None
      else if \<not> (1 \<le> day \<and> day \<le> days_in_month year month) then None
      else if \<not> hour \<le> 23 then None
      else if \<not> minute \<le> 59 then None
      else if \<not> second \<le> 59 then None
      else if \<not> microsecond \<le> 999999 then None
      else Some \<lparr>dt_year = year, dt_month = month, dt_day = day, dt_hour = hour,
                 dt_minute = minute, dt_second = second, dt_microsecond = microsecond,
                 dt_utcoffset = tzinfo\<rparr>)"

definition fromisoformat :: "string \<Rightarrow> error + datetime" where
  "fromisoformat dtstr =
     (let invalid = Inl (ValueError ''Invalid isoformat string'') in
      if length dtstr < 7 then invalid
      else
        (case find_isoformat_datetime_separator dtstr of
           None \<Rightarrow> invalid
         | Some separator_location \<Rightarrow>
             (case parse_isoformat_date dtstr separator_location of
                None \<Rightarrow> invalid
              | Some (year, month, day) \<Rightarrow>
                  (case (if separator_location < length dtstr
                         then parse_isoformat_time dtstr (separator_location + 1)
                         else Some ((0, 0, 0, 0), None)) of
                     None \<Rightarrow> invalid
                   | Some ((hour, minute, second, microsecond), tz) \<Rightarrow>
                       (case tzinfo_from_isoformat_results tz of
                          None \<Rightarrow> Inl (ValueError ''offset out of range'')
                        | Some tzinfo \<Rightarrow>
                            (case datetime_new year month day hour minute second microsecond
                                    tzinfo of
                               None \<Rightarrow> Inl (ValueError ''field out of range'')
                             | Some d \<Rightarrow> Inr d))))))"

text \<open>Decimal printing, and \<^verbatim>\<open>%0wd\<close> formatting of a non-negative number.\<close>

fun digits_of :: "nat \<Rightarrow> string" where
  "digits_of n =
     (if n < 10 then [''0123456789'' ! n]
      else digits_of (n div 10) @ [''0123456789'' ! (n mod 10)])"

declare digits_of.simps [simp del]

definition zero_padded :: "nat \<Rightarrow> nat \<Rightarrow> string" where
  "zero_padded w n = replicate (w - length (digits_of n)) CHR ''0'' @ digits_of n"

definition format_time :: "nat \<Rightarrow> nat \<Rightarrow> nat \<Rightarrow> nat \<Rightarrow> string" where
  "format_time hh mm ss us =
     zero_padded 2 hh @ '':'' @ zero_padded 2 mm @ '':'' @ zero_padded 2 ss
     @ (if us \<noteq> 0 then ''.'' @ zero_padded 6 us else '''')"

definition format_offset :: "int option \<Rightarrow> string" where
  "format_offset off =
     (case off of
        None \<Rightarrow> ''''
      | Some td \<Rightarrow>
          (let sign = (if td < 0 then ''-'' else ''+'');
               a = \<bar>td\<bar>;
               hh = a div 3600000000;
               r = a mod 3600000000;
               mm = r div 60000000;
               ss = r mod 60000000
           in sign @ zero_padded 2 (nat hh) @ '':'' @ zero_padded 2 (nat mm)
              @ (if ss \<noteq> 0
                 then '':'' @ zero_padded 2 (nat (ss div 1000000))
                      @ (if ss mod 1000000 \<noteq> 0
                         then ''.'' @ zero_padded 6 (nat (ss mod 1000000)) else '''')
                 else '''')))"

definition isoformat :: "datetime \<Rightarrow> string" where
  "isoformat d =
     zero_padded 4 (dt_year d) @ ''-'' @ zero_padded 2 (dt_month d) @ ''-''
     @ zero_padded 2 (dt_day d) @ ''T''
     @ format_time (dt_hour d) (dt_minute d) (dt_second d) (dt_microsecond d)
     @ format_offset (dt_utcoffset d)"

section \<open>Vocabulary of the properties\<close>

text \<open>
  A field of an object is missing when its key is not there or when it holds
  \<^verbatim>\<open>null\<close>: \<^verbatim>\<open>dict.get\<close> answers \<^verbatim>\<open>None\<close> in both cases.
\<close>

definition field_missing :: "(string \<times> json) list \<Rightarrow> string \<Rightarrow> bool" where
  "field_missing kvs k = (map_of kvs k = None \<or> map_of kvs k = Some JNull)"

section \<open>Loading an entry\<close>

lemma feed_setter_dict:
  "FeedParser_feed_setter self (JObj kvs) =
     (\<lparr>feed_post = (case map_of kvs ''post'' of None \<Rightarrow> JNull | Some v \<Rightarrow> v),
       feed_reply = (case map_of kvs ''reply'' of None \<Rightarrow> JNull | Some v \<Rightarrow> v),
       feed_reason = (case map_of kvs ''reason'' of None \<Rightarrow> JNull | Some v \<Rightarrow> v),
       feed_cur = JObj kvs\<rparr>, None)"
  by (simp add: FeedParser_feed_setter_def)

text \<open>
  C7. On a parser that has never been given an entry, \<open>post()\<close> raises
  \<^verbatim>\<open>ValueError("feed is not set.")\<close>; it does not return a parser or \<^verbatim>\<open>None\<close>.
\<close>

theorem post_before_load_raises:
  "FeedParser_post FeedParser_init = Inl (ValueError ''feed is not set.'')"
  by (simp add: FeedParser_post_def FeedParser_init_def)

text \<open>
  C10. An entry without a \<open>post\<close> field, or with \<open>post\<close> set to \<^verbatim>\<open>null\<close>, leaves
  the cached post at \<^verbatim>\<open>None\<close>, so \<open>post()\<close> raises the very error of a parser
  that was never loaded.
\<close>

theorem post_of_entry_without_post:
  "field_missing kvs ''post'' \<Longrightarrow>
     FeedParser_post (fst (FeedParser_feed_setter self (JObj kvs)))
       = Inl (ValueError ''feed is not set.'')
     \<and> FeedParser_post (fst (FeedParser_feed_setter self (JObj kvs)))
       = FeedParser_post FeedParser_init"
  by (auto simp add: feed_setter_dict FeedParser_post_def FeedParser_init_def field_missing_def)

theorem post_of_entry_without_post_witness:
  "field_missing [(''reply'', JObj [])] ''post''
   \<and> FeedParser_post (fst (FeedParser_feed_setter FeedParser_init (JObj [(''reply'', JObj [])])))
       = Inl (ValueError ''feed is not set.'')"
proof -
  have h: "field_missing [(''reply'', JObj [])] ''post''"
    by (simp add: field_missing_def)
  from post_of_entry_without_post [OF h, of FeedParser_init] h show ?thesis
    by simp
qed

text \<open>
  C9. Loading entry A and then entry B leaves the three cached references exactly as
  loading B into a fresh parser does: each of them is what \<open>B.get\<close> returns for its
  key. Hence \<open>post()\<close> is a parser over B's post, or the error when B has none;
  \<open>reply()\<close> is a parser over B's reply, or over the sentinel when B has none; and
  \<open>reason()\<close> is a parser over B's reason, or over \<^verbatim>\<open>None\<close>. Nothing of A is left.
\<close>

theorem load_replaces_cursor:
  "fst (FeedParser_feed_setter (fst (FeedParser_feed_setter self (JObj a))) (JObj b))
     = fst (FeedParser_feed_setter FeedParser_init (JObj b))
   \<and> dict_get (JObj b) ''post''
     = Inr (feed_post (fst (FeedParser_feed_setter (fst (FeedParser_feed_setter self (JObj a))) (JObj b))))
   \<and> dict_get (JObj b) ''reply''
     = Inr (feed_reply (fst (FeedParser_feed_setter (fst (FeedParser_feed_setter self (JObj a))) (JObj b))))
   \<and> dict_get (JObj b) ''reason''
     = Inr (feed_reason (fst (FeedParser_feed_setter (fst (FeedParser_feed_setter self (JObj a))) (JObj b))))
   \<and> snd (FeedParser_feed_setter (fst (FeedParser_feed_setter self (JObj a))) (JObj b)) = None
   \<and> FeedParser_post
        (fst (FeedParser_feed_setter (fst (FeedParser_feed_setter self (JObj a))) (JObj b)))
     = (case map_of b ''post'' of
          None \<Rightarrow> Inl (ValueError ''feed is not set.'')
        | Some v \<Rightarrow>
            if v = JNull then Inl (ValueError ''feed is not set.'') else Inr \<lparr>pp_post = v\<rparr>)
   \<and> FeedParser_reply
        (fst (FeedParser_feed_setter (fst (FeedParser_feed_setter self (JObj a))) (JObj b)))
     = \<lparr>reply_r =
          (case map_of b ''reply'' of
             None \<Rightarrow> JObj [(''error'', JStr ''no_feed_reply'')]
           | Some v \<Rightarrow> if v = JNull then JObj [(''error'', JStr ''no_feed_reply'')] else v)\<rparr>
   \<and> FeedParser_reason
        (fst (FeedParser_feed_setter (fst (FeedParser_feed_setter self (JObj a))) (JObj b)))
     = \<lparr>reason_r = (case map_of b ''reason'' of None \<Rightarrow> JNull | Some v \<Rightarrow> v)\<rparr>
   \<and> FeedParser_post
        (fst (FeedParser_feed_setter (fst (FeedParser_feed_setter self (JObj a))) (JObj b)))
     = FeedParser_post (fst (FeedParser_feed_setter FeedParser_init (JObj b)))
   \<and> FeedParser_reply
        (fst (FeedParser_feed_setter (fst (FeedParser_feed_setter self (JObj a))) (JObj b)))
     = FeedParser_reply (fst (FeedParser_feed_setter FeedParser_init (JObj b)))
   \<and> FeedParser_reason
        (fst (FeedParser_feed_setter (fst (FeedParser_feed_setter self (JObj a))) (JObj b)))
     = FeedParser_reason (fst (FeedParser_feed_setter FeedParser_init (JObj b)))"
  by (simp add: feed_setter_dict FeedParser_post_def FeedParser_reply_def FeedParser_reason_def
      split: option.split)

theorem load_replaces_cursor_witness:
  "FeedParser_post (fst (FeedParser_feed_setter (fst (FeedParser_feed_setter FeedParser_init
       (JObj [(''post'', JObj [(''uri'', JStr ''at://a'')]),
              (''reply'', JObj [(''root'', JObj [(''uri'', JStr ''at://r'')])]),
              (''reason'', JObj [(''$type'', JStr ''app.bsky.feed.defs#reasonRepost'')])])))
       (JObj [(''post'', JObj [(''uri'', JStr ''at://b'')])])))
     = Inr \<lparr>pp_post = JObj [(''uri'', JStr ''at://b'')]\<rparr>
   \<and> FeedParser_reply (fst (FeedParser_feed_setter (fst (FeedParser_feed_setter FeedParser_init
       (JObj [(''post'', JObj [(''uri'', JStr ''at://a'')]),
              (''reply'', JObj [(''root'', JObj [(''uri'', JStr ''at://r'')])]),
              (''reason'', JObj [(''$type'', JStr ''app.bsky.feed.defs#reasonRepost'')])])))
       (JObj [(''post'', JObj [(''uri'', JStr ''at://b'')])])))
     = \<lparr>reply_r = JObj [(''error'', JStr ''no_feed_reply'')]\<rparr>
   \<and> FeedParser_reason (fst (FeedParser_feed_setter (fst (FeedParser_feed_setter FeedParser_init
       (JObj [(''post'', JObj [(''uri'', JStr ''at://a'')]),
              (''reply'', JObj [(''root'', JObj [(''uri'', JStr ''at://r'')])]),
              (''reason'', JObj [(''$type'', JStr ''app.bsky.feed.defs#reasonRepost'')])])))
       (JObj [(''post'', JObj [(''uri'', JStr ''at://b'')])])))
     = \<lparr>reason_r = JNull\<rparr>"
  using load_replaces_cursor
    [of FeedParser_init
      "[(''post'', JObj [(''uri'', JStr ''at://a'')]),
        (''reply'', JObj [(''root'', JObj [(''uri'', JStr ''at://r'')])]),
        (''reason'', JObj [(''$type'', JStr ''app.bsky.feed.defs#reasonRepost'')])]"
      "[(''post'', JObj [(''uri'', JStr ''at://b'')])]"]
  by (simp add: feed_setter_dict FeedParser_post_def FeedParser_reply_def FeedParser_reason_def)

section \<open>Optional sub-objects\<close>

text \<open>
  C4. For an entry without a \<open>reply\<close> field, \<open>reply()\<close> is a ReplyParser over the
  sentinel \<^verbatim>\<open>{"error": "no_feed_reply"}\<close>, and \<open>root()\<close> on it returns \<^verbatim>\<open>None\<close>
  without raising; loading the entry raises nothing either.
\<close>

theorem reply_absent_sentinel:
  "map_of kvs ''reply'' = None \<Longrightarrow>
     snd (FeedParser_feed_setter self (JObj kvs)) = None
     \<and> FeedParser_reply (fst (FeedParser_feed_setter self (JObj kvs)))
         = \<lparr>reply_r = JObj [(''error'', JStr ''no_feed_reply'')]\<rparr>
     \<and> ReplyParser_root (FeedParser_reply (fst (FeedParser_feed_setter self (JObj kvs))))
         = Inr JNull"
  by (simp add: feed_setter_dict FeedParser_reply_def ReplyParser_root_def ReplyParser_reply_def)

theorem reply_absent_sentinel_witness:
  "map_of [(''post'', JObj [(''uri'', JStr ''at://x'')])] ''reply'' = None
   \<and> ReplyParser_root (FeedParser_reply (fst (FeedParser_feed_setter FeedParser_init
         (JObj [(''post'', JObj [(''uri'', JStr ''at://x'')])])))) = Inr JNull"
proof -
  have h: "map_of [(''post'', JObj [(''uri'', JStr ''at://x'')])] ''reply'' = None"
    by simp
  from reply_absent_sentinel [OF h, of FeedParser_init] h show ?thesis
    by blast
qed

text \<open>
  C5. A ReasonParser over \<^verbatim>\<open>None\<close> answers \<open>NONE\<close>, the empty string and the
  empty string, whatever the timestamp parser is: \<open>indexed_at()\<close> does not call it.
\<close>

theorem absent_reason_defaults:
  "ReasonParser_reason_type \<lparr>reason_r = JNull\<rparr> = Inr (Some NONE)
   \<and> ReasonParser_by \<lparr>reason_r = JNull\<rparr> = Inr (JStr '''')
   \<and> ReasonParser_indexed_at fromiso \<lparr>reason_r = JNull\<rparr> = Inr (PyStr '''')"
  by (simp add: ReasonParser_reason_type_def ReasonParser_by_def ReasonParser_indexed_at_def
      ReasonParser_reason_def)

section \<open>Post fields with a default\<close>

lemma default_count_cases:
  "default_count JNull = JInt 0" "v \<noteq> JNull \<Longrightarrow> default_count v = v"
  by (simp_all add: default_count_def)

lemma reply_count_dict:
  "PostParser_reply_count \<lparr>pp_post = JObj kvs\<rparr>
     = Inr (default_count (case map_of kvs ''replyCount'' of None \<Rightarrow> JNull | Some v \<Rightarrow> v))"
  by (simp add: PostParser_reply_count_def)

lemma repost_count_dict:
  "PostParser_repost_count \<lparr>pp_post = JObj kvs\<rparr>
     = Inr (default_count (case map_of kvs ''repostCount'' of None \<Rightarrow> JNull | Some v \<Rightarrow> v))"
  by (simp add: PostParser_repost_count_def)

lemma like_count_dict:
  "PostParser_like_count \<lparr>pp_post = JObj kvs\<rparr>
     = Inr (default_count (case map_of kvs ''likeCount'' of None \<Rightarrow> JNull | Some v \<Rightarrow> v))"
  by (simp add: PostParser_like_count_def)

lemma quote_count_dict:
  "PostParser_quote_count \<lparr>pp_post = JObj kvs\<rparr>
     = Inr (default_count (case map_of kvs ''quoteCount'' of None \<Rightarrow> JNull | Some v \<Rightarrow> v))"
  by (simp add: PostParser_quote_count_def)

text \<open>
  C3. Each of the four counters is \<open>0\<close> when its field is missing or \<^verbatim>\<open>null\<close>, and
  the stored value itself, whatever it is, when the field holds anything else.
\<close>

theorem counters_default_zero:
  "(field_missing kvs ''replyCount'' \<longrightarrow>
      PostParser_reply_count \<lparr>pp_post = JObj kvs\<rparr> = Inr (JInt 0))
   \<and> (map_of kvs ''replyCount'' = Some v \<and> v \<noteq> JNull \<longrightarrow>
      PostParser_reply_count \<lparr>pp_post = JObj kvs\<rparr> = Inr v)
   \<and> (field_missing kvs ''repostCount'' \<longrightarrow>
      PostParser_repost_count \<lparr>pp_post = JObj kvs\<rparr> = Inr (JInt 0))
   \<and> (map_of kvs ''repostCount'' = Some v \<and> v \<noteq> JNull \<longrightarrow>
      PostParser_repost_count \<lparr>pp_post = JObj kvs\<rparr> = Inr v)
   \<and> (field_missing kvs ''likeCount'' \<longrightarrow>
      PostParser_like_count \<lparr>pp_post = JObj kvs\<rparr> = Inr (JInt 0))
   \<and> (map_of kvs ''likeCount'' = Some v \<and> v \<noteq> JNull \<longrightarrow>
      PostParser_like_count \<lparr>pp_post = JObj kvs\<rparr> = Inr v)
   \<and> (field_missing kvs ''quoteCount'' \<longrightarrow>
      PostParser_quote_count \<lparr>pp_post = JObj kvs\<rparr> = Inr (JInt 0))
   \<and> (map_of kvs ''quoteCount'' = Some v \<and> v \<noteq> JNull \<longrightarrow>
      PostParser_quote_count \<lparr>pp_post = JObj kvs\<rparr> = Inr v)"
  unfolding reply_count_dict repost_count_dict like_count_dict quote_count_dict field_missing_def
  by (auto simp add: default_count_cases)

theorem counters_default_zero_witness:
  "PostParser_reply_count \<lparr>pp_post = JObj [(''replyCount'', JInt (- 4)), (''likeCount'', JNull)]\<rparr>
     = Inr (JInt (- 4))
   \<and> PostParser_like_count \<lparr>pp_post = JObj [(''replyCount'', JInt (- 4)), (''likeCount'', JNull)]\<rparr>
     = Inr (JInt 0)
   \<and> PostParser_quote_count \<lparr>pp_post = JObj [(''replyCount'', JInt (- 4)), (''likeCount'', JNull)]\<rparr>
     = Inr (JInt 0)"
  using counters_default_zero [of "[(''replyCount'', JInt (- 4)), (''likeCount'', JNull)]" "JInt (- 4)"]
  by (simp add: field_missing_def)

text \<open>
  C6. \<open>embed()\<close> is the sentinel \<^verbatim>\<open>{"error": "no_embed"}\<close> when the field is missing
  or \<^verbatim>\<open>null\<close>, and the stored embed itself otherwise.
\<close>

theorem embed_sentinel_or_raw:
  "(field_missing kvs ''embed'' \<longrightarrow>
      PostParser_embed \<lparr>pp_post = JObj kvs\<rparr> = Inr (JObj [(''error'', JStr ''no_embed'')]))
   \<and> (map_of kvs ''embed'' = Some v \<and> v \<noteq> JNull \<longrightarrow>
      PostParser_embed \<lparr>pp_post = JObj kvs\<rparr> = Inr v)"
  by (auto simp add: PostParser_embed_def field_missing_def)

theorem embed_sentinel_or_raw_witness:
  "PostParser_embed \<lparr>pp_post = JObj [(''uri'', JStr ''at://x'')]\<rparr>
     = Inr (JObj [(''error'', JStr ''no_embed'')])
   \<and> PostParser_embed \<lparr>pp_post = JObj [(''embed'', JObj [(''$type'', JStr ''app.bsky.embed.images#view'')])]\<rparr>
     = Inr (JObj [(''$type'', JStr ''app.bsky.embed.images#view'')])"
  using embed_sentinel_or_raw [of "[(''uri'', JStr ''at://x'')]"]
    embed_sentinel_or_raw [of "[(''embed'', JObj [(''$type'', JStr ''app.bsky.embed.images#view'')])]"
      "JObj [(''$type'', JStr ''app.bsky.embed.images#view'')]"]
  by (simp add: field_missing_def)

section \<open>The reason tag\<close>

lemma reason_type_of_tag:
  "map_of kvs ''$type'' = Some (JStr t) \<Longrightarrow>
     ReasonParser_reason_type \<lparr>reason_r = JObj kvs\<rparr>
       = Inr (if t = [] then Some NONE
              else if t = ReasonType_value REPOST then Some REPOST
              else if t = ReasonType_value PIN then Some PIN
              else None)"
  by (simp add: ReasonParser_reason_type_def ReasonParser_reason_def)

text \<open>
  C1. With the tag \<^verbatim>\<open>"app.bsky.feed.defs#reasonQuote"\<close>, a non-empty string that is
  neither the repost nor the pin tag, \<open>reason_type()\<close> raises nothing and returns
  Python's \<^verbatim>\<open>None\<close>: no case of its \<^verbatim>\<open>match\<close> statement applies and the function
  body ends. The result is neither the member \<open>NONE\<close> nor the tag.
\<close>

theorem reason_type_unknown_tag:
  "ReasonParser_reason_type
     \<lparr>reason_r = JObj [(''$type'', JStr ''app.bsky.feed.defs#reasonQuote'')]\<rparr> = Inr None"
  by (simp add: ReasonParser_reason_type_def ReasonParser_reason_def)

section \<open>The indexed timestamp of a post\<close>

subsection \<open>Concrete timestamps under the library's parser\<close>

lemma sep_Z: "find_isoformat_datetime_separator ''2023-05-01T12:00:00Z'' = Some 10"
  by (simp add: find_isoformat_datetime_separator_def byte_at_def Let_def)

lemma date_Z: "parse_isoformat_date ''2023-05-01T12:00:00Z'' 10 = Some (2023, 5, 1)"
  by (simp add: parse_isoformat_date_def parse_digits_def is_ascii_digit_def digit_value_def
      byte_at_def Let_def)

lemma tzpos_Z: "tzinfo_pos ''2023-05-01T12:00:00Z'' 11 = 19"
  by (simp add: tzinfo_pos_def Let_def)

lemma hms_Z: "parse_hh_mm_ss_ff ''2023-05-01T12:00:00Z'' 11 19 = Some (True, 12, 0, 0, 0)"
  by (simp add: parse_hh_mm_ss_ff_def parse_digits_def is_ascii_digit_def digit_value_def
      byte_at_def Let_def)

lemma time_Z:
  "parse_isoformat_time ''2023-05-01T12:00:00Z'' 11 = Some ((12, 0, 0, 0), Some (0, 0))"
  by (simp add: parse_isoformat_time_def tzpos_Z hms_Z byte_at_def Let_def)

lemma noon_fields_valid:
  "datetime_new 2023 5 (Suc 0) 12 0 0 0 (Some 0) =
     Some \<lparr>dt_year = 2023, dt_month = 5, dt_day = 1, dt_hour = 12, dt_minute = 0,
           dt_second = 0, dt_microsecond = 0, dt_utcoffset = Some 0\<rparr>"
  by (simp add: datetime_new_def days_in_month_def days_in_month_table_def)

lemma fromisoformat_Z:
  "fromisoformat ''2023-05-01T12:00:00Z'' =
     Inr \<lparr>dt_year = 2023, dt_month = 5, dt_day = 1, dt_hour = 12, dt_minute = 0,
          dt_second = 0, dt_microsecond = 0, dt_utcoffset = Some 0\<rparr>"
  by (simp add: fromisoformat_def sep_Z date_Z time_Z tzinfo_from_isoformat_results_def
      noon_fields_valid Let_def)

lemma sep_offset: "find_isoformat_datetime_separator ''2023-05-01T12:00:00+00:00'' = Some 10"
  by (simp add: find_isoformat_datetime_separator_def byte_at_def Let_def)

lemma date_offset: "parse_isoformat_date ''2023-05-01T12:00:00+00:00'' 10 = Some (2023, 5, 1)"
  by (simp add: parse_isoformat_date_def parse_digits_def is_ascii_digit_def digit_value_def
      byte_at_def Let_def)

lemma length_offset: "length ''2023-05-01T12:00:00+00:00'' = 25"
  by simp

lemma tzpos_offset: "tzinfo_pos ''2023-05-01T12:00:00+00:00'' 11 = 19"
  by (simp add: tzinfo_pos_def Let_def)

lemma hms_offset:
  "parse_hh_mm_ss_ff ''2023-05-01T12:00:00+00:00'' 11 19 = Some (True, 12, 0, 0, 0)"
  by (simp add: parse_hh_mm_ss_ff_def parse_digits_def is_ascii_digit_def digit_value_def
      byte_at_def Let_def)

lemma hms_offset_tz:
  "parse_hh_mm_ss_ff ''2023-05-01T12:00:00+00:00'' 20 25 = Some (False, 0, 0, 0, 0)"
  by (simp add: parse_hh_mm_ss_ff_def parse_digits_def is_ascii_digit_def digit_value_def
      byte_at_def Let_def)

lemma time_offset:
  "parse_isoformat_time ''2023-05-01T12:00:00+00:00'' 11 = Some ((12, 0, 0, 0), Some (0, 0))"
  by (simp only: parse_isoformat_time_def Let_def length_offset tzpos_offset hms_offset
      hms_offset_tz) (simp add: hms_offset_tz byte_at_def)

lemma fromisoformat_offset:
  "fromisoformat ''2023-05-01T12:00:00+00:00'' =
     Inr \<lparr>dt_year = 2023, dt_month = 5, dt_day = 1, dt_hour = 12, dt_minute = 0,
          dt_second = 0, dt_microsecond = 0, dt_utcoffset = Some 0\<rparr>"
  by (simp add: fromisoformat_def sep_offset date_offset time_offset
      tzinfo_from_isoformat_results_def noon_fields_valid Let_def)





lemma digits_of_examples:
  "digits_of 2023 = ''2023''" "digits_of 5 = ''5''" "digits_of (Suc 0) = ''1''"
  "digits_of 12 = ''12''" "digits_of 0 = ''0''"
  by (simp_all add: digits_of.simps [of 2023] digits_of.simps [of 202] digits_of.simps [of 20]
      digits_of.simps [of 2] digits_of.simps [of 5] digits_of.simps [of "Suc 0"]
      digits_of.simps [of 12] digits_of.simps [of 0])

lemma isoformat_noon:
  "isoformat \<lparr>dt_year = 2023, dt_month = 5, dt_day = 1, dt_hour = 12, dt_minute = 0,
      dt_second = 0, dt_microsecond = 0, dt_utcoffset = Some 0\<rparr>
     = ''2023-05-01T12:00:00+00:00''"
  by (simp add: isoformat_def format_time_def format_offset_def zero_padded_def
      digits_of_examples)

lemma indexed_at_noon:
  "PostParser_indexed_at fromisoformat
       \<lparr>pp_post = JObj [(''indexedAt'', JStr ''2023-05-01T12:00:00Z'')]\<rparr>
     = Inr \<lparr>dt_year = 2023, dt_month = 5, dt_day = 1, dt_hour = 12, dt_minute = 0,
            dt_second = 0, dt_microsecond = 0, dt_utcoffset = Some 0\<rparr>"
  by (simp add: PostParser_indexed_at_def fromisoformat_Z)


subsection \<open>Failure and success of the accessor\<close>



subsection \<open>Printing the parsed timestamp\<close>

text \<open>
  C2, as the code has it. A post indexed at \<^verbatim>\<open>"2023-05-01T12:00:00Z"\<close> parses to
  noon UTC of that day; printing the timestamp with \<open>isoformat\<close> yields
  \<^verbatim>\<open>"2023-05-01T12:00:00+00:00"\<close>, the same instant with a numeric offset, and
  that string parses to the same timestamp again.
\<close>

theorem indexed_at_reprinted_with_offset:
  "map_sum id isoformat (PostParser_indexed_at fromisoformat
       \<lparr>pp_post = JObj [(''indexedAt'', JStr ''2023-05-01T12:00:00Z'')]\<rparr>)
     = Inr ''2023-05-01T12:00:00+00:00''
   \<and> fromisoformat ''2023-05-01T12:00:00+00:00''
     = PostParser_indexed_at fromisoformat
         \<lparr>pp_post = JObj [(''indexedAt'', JStr ''2023-05-01T12:00:00Z'')]\<rparr>"
  by (simp add: indexed_at_noon isoformat_noon [unfolded One_nat_def] fromisoformat_offset)

theorem indexed_at_reprinted_with_offset_witness:
  "\<exists>d. PostParser_indexed_at fromisoformat
           \<lparr>pp_post = JObj [(''indexedAt'', JStr ''2023-05-01T12:00:00Z'')]\<rparr> = Inr d
       \<and> isoformat d = ''2023-05-01T12:00:00+00:00''
       \<and> fromisoformat (isoformat d) = Inr d"
  using indexed_at_reprinted_with_offset
  by (cases "PostParser_indexed_at fromisoformat
        \<lparr>pp_post = JObj [(''indexedAt'', JStr ''2023-05-01T12:00:00Z'')]\<rparr>") auto

text \<open>
  C2, as the specification has it, fails: the printed timestamp is not the string
  that was parsed.
\<close>

theorem indexed_at_roundtrip_counterexample:
  "map_sum id isoformat (PostParser_indexed_at fromisoformat
       \<lparr>pp_post = JObj [(''indexedAt'', JStr ''2023-05-01T12:00:00Z'')]\<rparr>)
     \<noteq> Inr ''2023-05-01T12:00:00Z''"
  by (simp add: indexed_at_noon isoformat_noon [unfolded One_nat_def])

end
